theory Spec2Isabelle
  imports Main
begin

section \<open>Rich representations for the notebook frontend (\<^verbatim>\<open>google/colab/_reprs.py\<close>)\<close>

text \<open>
  The module installs rendering callbacks in the display-formatter registry of the running
  IPython shell and removes them again. Names follow the Python source; a leading underscore
  of a private name is dropped (\<^verbatim>\<open>_string_intrinsic_repr\<close> is \<open>string_intrinsic_repr\<close>).
  Dictionaries are maps, and every exception the source can raise is a value \<open>Inl e\<close> of the
  result. Constants of the program (MIME types, module and class names, the keys of a payload)
  are HOL strings; text that comes from the user (names in the namespace, input lines, the
  text of a summary) is a list of Unicode code points.
\<close>

subsection \<open>Exceptions\<close>

datatype exn = KeyError | IndexError | AttributeError | TypeError | ValueError

text \<open>Sequencing of two steps where the first may raise.\<close>

definition and_then :: "exn + 'a \<Rightarrow> ('a \<Rightarrow> exn + 'b) \<Rightarrow> exn + 'b" where
  "and_then r k = (case r of Inl e \<Rightarrow> Inl e | Inr x \<Rightarrow> k x)"

subsection \<open>The host's formatter registry\<close>

text \<open>
  A callback is a function object; two callbacks are equal when they are the same object.
  The three renderers of this module are named; \<open>Foreign n\<close> is any other callable that the
  host or the user has registered.
\<close>

datatype callback =
    StringIntrinsicRepr
  | DataframeIntrinsicRepr
  | NewFormatter
  | Foreign nat

text \<open>
  A dispatch table is IPython's \<^verbatim>\<open>BaseFormatter\<close> (\<^verbatim>\<open>IPython/core/formatters.py\<close>). It keeps two
  dictionaries: \<^verbatim>\<open>type_printers\<close>, keyed by class, and \<^verbatim>\<open>deferred_printers\<close>, keyed by the
  pair of module name and class name of a class that need not be loaded. A class is
  identified here with that pair, which is what \<^verbatim>\<open>_mod_name_key\<close> returns for it. A type
  object is given with its base classes in method resolution order.
\<close>

type_synonym cls = "string \<times> string"

record formatter =
  type_printers :: "cls \<rightharpoonup> callback"
  deferred_printers :: "cls \<rightharpoonup> callback"

datatype typ_arg = TypeObject cls "cls list" | DottedName string

definition str_class :: cls where
  "str_class = (''builtins'', ''str'')"

definition object_class :: cls where
  "object_class = (''builtins'', ''object'')"

text \<open>The type \<^verbatim>\<open>str\<close>, whose \<^verbatim>\<open>__mro__\<close> is \<^verbatim>\<open>(str, object)\<close>.\<close>

definition str_type :: typ_arg where
  "str_type = TypeObject str_class [object_class]"

text \<open>\<^verbatim>\<open>s.rsplit('.', 1)\<close>: the parts before and after the last dot, if there is a dot.\<close>

definition rsplit_dot :: "string \<Rightarrow> (string \<times> string) option" where
  "rsplit_dot s =
     (let r = rev s in
      if CHR ''.'' \<in> set s
      then Some (rev (tl (dropWhile (\<lambda>c. c \<noteq> CHR ''.'') r)), rev (takeWhile (\<lambda>c. c \<noteq> CHR ''.'') r))
      else None)"

text \<open>
  \<^verbatim>\<open>_in_deferred_types(cls)\<close>: an entry given by name for the class is moved to
  \<^verbatim>\<open>type_printers\<close>.
\<close>

definition in_deferred_types :: "cls \<Rightarrow> formatter \<Rightarrow> bool \<times> formatter" where
  "in_deferred_types c fmt =
     (case deferred_printers fmt c of
        None \<Rightarrow> (False, fmt)
      | Some printer \<Rightarrow>
          (True, fmt\<lparr>deferred_printers := (deferred_printers fmt)(c := None),
                     type_printers := (type_printers fmt)(c \<mapsto> printer)\<rparr>))"

text \<open>
  \<^verbatim>\<open>lookup_by_type(typ)\<close>. For a type object it walks the method resolution order and takes
  the first class that has an entry, moving a deferred entry on the way. For a dotted name
  it reads \<^verbatim>\<open>deferred_printers\<close> and, when the name is not there, the entry of
  \<^verbatim>\<open>type_printers\<close> whose class has that name. It raises \<^verbatim>\<open>KeyError\<close> when nothing is found;
  a name without a dot matches no key.
\<close>

definition printer_at :: "formatter \<Rightarrow> cls \<Rightarrow> exn + callback" where
  "printer_at fmt c = (case type_printers fmt c of None \<Rightarrow> Inl KeyError | Some f \<Rightarrow> Inr f)"

fun lookup_in_mro :: "cls list \<Rightarrow> formatter \<Rightarrow> (exn + callback) \<times> formatter" where
  "lookup_in_mro [] fmt = (Inl KeyError, fmt)"
| "lookup_in_mro (c # rest) fmt =
     (if c \<in> dom (type_printers fmt) then (printer_at fmt c, fmt)
      else (let (found, fmt') = in_deferred_types c fmt in
            if found then (printer_at fmt' c, fmt') else lookup_in_mro rest fmt'))"

definition lookup_by_name :: "string \<Rightarrow> formatter \<Rightarrow> exn + callback" where
  "lookup_by_name typ fmt =
     (case rsplit_dot typ of
        None \<Rightarrow> Inl KeyError
      | Some typ_key \<Rightarrow>
          (case deferred_printers fmt typ_key of
             Some f \<Rightarrow> Inr f
           | None \<Rightarrow>
               (case type_printers fmt typ_key of
                  Some f \<Rightarrow> Inr f
                | None \<Rightarrow> Inl KeyError)))"

definition lookup_by_type :: "typ_arg \<Rightarrow> formatter \<Rightarrow> (exn + callback) \<times> formatter" where
  "lookup_by_type typ fmt =
     (case typ of
        DottedName s \<Rightarrow> (lookup_by_name s fmt, fmt)
      | TypeObject c bases \<Rightarrow> lookup_in_mro (c # bases) fmt)"

text \<open>\<^verbatim>\<open>try: oldfunc = self.lookup_by_type(...) except KeyError: oldfunc = None\<close>.\<close>

definition or_none :: "exn + callback \<Rightarrow> callback option" where
  "or_none r = (case r of Inl e \<Rightarrow> None | Inr f \<Rightarrow> Some f)"

text \<open>
  \<^verbatim>\<open>for_type(typ, func)\<close> for a type object (the module passes \<^verbatim>\<open>str\<close>) and
  \<^verbatim>\<open>for_type_by_name(type_module, type_name, func)\<close>: both return what the lookup finds and
  install \<^verbatim>\<open>func\<close> unless it is \<^verbatim>\<open>None\<close>, the first in \<^verbatim>\<open>type_printers\<close>, the second in
  \<^verbatim>\<open>deferred_printers\<close>.
\<close>

definition for_type ::
  "cls \<Rightarrow> cls list \<Rightarrow> callback option \<Rightarrow> formatter \<Rightarrow> callback option \<times> formatter" where
  "for_type typ bases func fmt =
     (let (r, fmt1) = lookup_by_type (TypeObject typ bases) fmt;
          oldfunc = or_none r
      in (oldfunc,
          case func of
            None \<Rightarrow> fmt1
          | Some f \<Rightarrow> fmt1\<lparr>type_printers := (type_printers fmt1)(typ \<mapsto> f)\<rparr>))"

definition for_type_by_name ::
  "string \<Rightarrow> string \<Rightarrow> callback option \<Rightarrow> formatter \<Rightarrow> callback option \<times> formatter" where
  "for_type_by_name type_module type_name func fmt =
     (let key = (type_module, type_name);
          (r, fmt1) = lookup_by_type (DottedName (type_module @ ''.'' @ type_name)) fmt;
          oldfunc = or_none r
      in (oldfunc,
          case func of
            None \<Rightarrow> fmt1
          | Some f \<Rightarrow> fmt1\<lparr>deferred_printers := (deferred_printers fmt1)(key \<mapsto> f)\<rparr>))"

text \<open>\<^verbatim>\<open>pop(typ)\<close> without a default: it raises \<^verbatim>\<open>KeyError\<close> when there is nothing to remove.\<close>

definition pop :: "typ_arg \<Rightarrow> formatter \<Rightarrow> exn + (callback \<times> formatter)" where
  "pop typ fmt =
     (case typ of
        DottedName s \<Rightarrow>
          (case rsplit_dot s of
             None \<Rightarrow> Inl KeyError
           | Some typ_key \<Rightarrow>
               (case deferred_printers fmt typ_key of
                  None \<Rightarrow>
                    (case type_printers fmt typ_key of
                       None \<Rightarrow> Inl KeyError
                     | Some old \<Rightarrow>
                         Inr (old, fmt\<lparr>type_printers := (type_printers fmt)(typ_key := None)\<rparr>))
                | Some old \<Rightarrow>
                    Inr (old, fmt\<lparr>deferred_printers := (deferred_printers fmt)(typ_key := None)\<rparr>)))
      | TypeObject c bases \<Rightarrow>
          (case type_printers fmt c of
             Some old \<Rightarrow> Inr (old, fmt\<lparr>type_printers := (type_printers fmt)(c := None)\<rparr>)
           | None \<Rightarrow>
               (case deferred_printers fmt c of
                  None \<Rightarrow> Inl KeyError
                | Some old \<Rightarrow>
                    Inr (old, fmt\<lparr>deferred_printers := (deferred_printers fmt)(c := None)\<rparr>))))"

subsection \<open>Objects, the shell and the module's state\<close>

text \<open>
  A Python string is a list of Unicode code points; \<open>ascii\<close> embeds a program literal.
\<close>

type_synonym pystr = "nat list"

definition ascii :: "string \<Rightarrow> pystr" where
  "ascii s = map of_char s"

text \<open>
  A dataframe as the module sees it: \<^verbatim>\<open>len(df)\<close>, \<^verbatim>\<open>df.columns\<close>, and the cell values, which only
  the tabular library reads.
\<close>

record dataframe =
  nrows :: nat
  columns :: "pystr list"
  cells :: "pystr list list"

text \<open>
  The objects a namespace can hold: dataframes, strings, lists, and \<open>Other\<close>, an object with
  none of the operations the module applies. Objects live in a heap and are referred to by
  address; \<^verbatim>\<open>a is b\<close> compares addresses.
\<close>

datatype pyobj = DataFrame dataframe | Str pystr | List "pyobj list" | Other

type_synonym addr = nat

type_synonym heap = "addr \<Rightarrow> pyobj"

text \<open>
  The interactive shell: \<^verbatim>\<open>shell.display_formatter.formatters\<close>, a dictionary from MIME type to
  dispatch table, and \<^verbatim>\<open>shell.user_ns\<close>, the namespace in its iteration order.
\<close>

record shell =
  formatters :: "string \<rightharpoonup> formatter"
  user_ns :: "(pystr \<times> addr) list"

text \<open>
  The process-wide state: what \<^verbatim>\<open>IPython.get_ipython()\<close> returns, and the module's three
  dictionaries of saved callbacks. A saved callback may be \<^verbatim>\<open>None\<close>, so a dictionary maps a
  key to a \<open>callback option\<close>.
\<close>

record world =
  get_ipython :: "shell option"
  original_string_formatters :: "string \<rightharpoonup> callback option"
  original_df_formatters :: "string \<rightharpoonup> callback option"
  original_dataframe_metadata_formatters :: "string \<rightharpoonup> callback option"

subsection \<open>The string renderer\<close>

type_synonym payload = "string \<rightharpoonup> string"

definition string_intrinsic_repr :: "'a \<Rightarrow> payload" where
  "string_intrinsic_repr x = [''type'' \<mapsto> ''string'']"

definition INTRINSIC_MIME_TYPE :: string where
  "INTRINSIC_MIME_TYPE = ''application/vnd.google.colaboratory.intrinsic+json''"

subsection \<open>Registering the intrinsic MIME type\<close>

text \<open>A new \<^verbatim>\<open>_IntrinsicTypeFormatter\<close> has no callback registered.\<close>

definition IntrinsicTypeFormatter :: formatter where
  "IntrinsicTypeFormatter = \<lparr>type_printers = Map.empty, deferred_printers = Map.empty\<rparr>"

definition register_intrinsic_mimetype :: "world \<Rightarrow> world" where
  "register_intrinsic_mimetype w =
     (case get_ipython w of
        None \<Rightarrow> w
      | Some shell \<Rightarrow>
          (case formatters shell INTRINSIC_MIME_TYPE of
             Some fmt \<Rightarrow> w
           | None \<Rightarrow>
               w\<lparr>get_ipython := Some (shell\<lparr>formatters :=
                    (formatters shell)(INTRINSIC_MIME_TYPE \<mapsto> IntrinsicTypeFormatter)\<rparr>)\<rparr>))"

subsection \<open>The toggles\<close>

text \<open>
  \<^verbatim>\<open>formatters[key]\<close> raises \<^verbatim>\<open>KeyError\<close> when the registry has no dispatch table for the MIME
  type; \<^verbatim>\<open>IPython.get_ipython().display_formatter\<close> raises \<^verbatim>\<open>AttributeError\<close> when no shell is
  active.
\<close>

definition enable_string_repr :: "world \<Rightarrow> exn + world" where
  "enable_string_repr w =
     (let key = INTRINSIC_MIME_TYPE in
      if key \<notin> dom (original_string_formatters w) then
        (let w1 = register_intrinsic_mimetype w in
         case get_ipython w1 of
           None \<Rightarrow> Inr w1
         | Some shell \<Rightarrow>
             (case formatters shell key of
                None \<Rightarrow> Inl KeyError
              | Some fmt \<Rightarrow>
                  (let (old, fmt') =
                         for_type str_class [object_class] (Some StringIntrinsicRepr) fmt in
                   Inr (w1\<lparr>get_ipython := Some (shell\<lparr>formatters := (formatters shell)(key \<mapsto> fmt')\<rparr>),
                           original_string_formatters :=
                             (original_string_formatters w1)(key \<mapsto> old)\<rparr>))))
      else Inr w)"

definition disable_string_repr :: "world \<Rightarrow> exn + world" where
  "disable_string_repr w =
     (let key = INTRINSIC_MIME_TYPE in
      if key \<in> dom (original_string_formatters w) then
        (case get_ipython w of
           None \<Rightarrow> Inl AttributeError
         | Some shell \<Rightarrow>
             (case formatters shell key of
                None \<Rightarrow> Inl KeyError
              | Some fmt \<Rightarrow>
                  (case pop str_type fmt of
                     Inl e \<Rightarrow> Inl e
                   | Inr (popped, fmt1) \<Rightarrow>
                       (case original_string_formatters w key of
                          None \<Rightarrow> Inl KeyError
                        | Some saved \<Rightarrow>
                            (let (old, fmt2) = for_type str_class [object_class] saved fmt1 in
                             Inr (w\<lparr>get_ipython := Some (shell\<lparr>formatters := (formatters shell)(key \<mapsto> fmt2)\<rparr>),
                                    original_string_formatters :=
                                      (original_string_formatters w)(key := None)\<rparr>))))))
      else Inr w)"

definition enable_df_style_formatter :: "world \<Rightarrow> exn + world" where
  "enable_df_style_formatter w =
     (let key = ''text/html'' in
      if key \<in> dom (original_df_formatters w) then Inr w
      else
        (case get_ipython w of
           None \<Rightarrow> Inr w
         | Some shell \<Rightarrow>
             (case formatters shell key of
                None \<Rightarrow> Inl KeyError
              | Some fmt \<Rightarrow>
                  (let (old, fmt') =
                         for_type_by_name ''pandas.io.formats.style'' ''Styler'' (Some NewFormatter) fmt in
                   Inr (w\<lparr>get_ipython := Some (shell\<lparr>formatters := (formatters shell)(key \<mapsto> fmt')\<rparr>),
                          original_df_formatters := (original_df_formatters w)(key \<mapsto> old)\<rparr>)))))"

definition disable_df_style_formatter :: "world \<Rightarrow> exn + world" where
  "disable_df_style_formatter w =
     (let key = ''text/html'' in
      if key \<notin> dom (original_df_formatters w) then Inr w
      else
        (case get_ipython w of
           None \<Rightarrow> Inl AttributeError
         | Some shell \<Rightarrow>
             (case formatters shell key of
                None \<Rightarrow> Inl KeyError
              | Some fmt \<Rightarrow>
                  (case pop (DottedName ''pandas.io.formats.style.Styler'') fmt of
                     Inl e \<Rightarrow> Inl e
                   | Inr (popped, fmt1) \<Rightarrow>
                       (case original_df_formatters w key of
                          None \<Rightarrow> Inl KeyError
                        | Some saved \<Rightarrow>
                            (let (old, fmt2) =
                                   for_type_by_name ''pandas.io.formats.style'' ''Styler'' saved fmt1 in
                             Inr (w\<lparr>get_ipython := Some (shell\<lparr>formatters := (formatters shell)(key \<mapsto> fmt2)\<rparr>),
                                    original_df_formatters := (original_df_formatters w)(key := None)\<rparr>)))))))"

definition enable_dataframe_metadata_repr :: "world \<Rightarrow> exn + world" where
  "enable_dataframe_metadata_repr w =
     (let key = INTRINSIC_MIME_TYPE in
      if key \<notin> dom (original_dataframe_metadata_formatters w) then
        (let w1 = register_intrinsic_mimetype w in
         case get_ipython w1 of
           None \<Rightarrow> Inr w1
         | Some shell \<Rightarrow>
             (case formatters shell key of
                None \<Rightarrow> Inl KeyError
              | Some fmt \<Rightarrow>
                  (let (old, fmt') =
                         for_type_by_name ''pandas.core.frame'' ''DataFrame''
                           (Some DataframeIntrinsicRepr) fmt in
                   Inr (w1\<lparr>get_ipython := Some (shell\<lparr>formatters := (formatters shell)(key \<mapsto> fmt')\<rparr>),
                           original_dataframe_metadata_formatters :=
                             (original_dataframe_metadata_formatters w1)(key \<mapsto> old)\<rparr>))))
      else Inr w)"

definition disable_dataframe_metadata_repr :: "world \<Rightarrow> exn + world" where
  "disable_dataframe_metadata_repr w =
     (let key = INTRINSIC_MIME_TYPE in
      if key \<in> dom (original_dataframe_metadata_formatters w) then
        (case get_ipython w of
           None \<Rightarrow> Inl AttributeError
         | Some shell \<Rightarrow>
             (case formatters shell key of
                None \<Rightarrow> Inl KeyError
              | Some fmt \<Rightarrow>
                  (case pop (DottedName ''pandas.core.frame.DataFrame'') fmt of
                     Inl e \<Rightarrow> Inl e
                   | Inr (popped, fmt1) \<Rightarrow>
                       (case original_dataframe_metadata_formatters w key of
                          None \<Rightarrow> Inl KeyError
                        | Some saved \<Rightarrow>
                            (let (old, fmt2) =
                                   for_type_by_name ''pandas.core.frame'' ''DataFrame'' saved fmt1 in
                             Inr (w\<lparr>get_ipython := Some (shell\<lparr>formatters := (formatters shell)(key \<mapsto> fmt2)\<rparr>),
                                    original_dataframe_metadata_formatters :=
                                      (original_dataframe_metadata_formatters w)(key := None)\<rparr>))))))
      else Inr w)"

text \<open>
  The three features, with the pair of functions, the MIME type, the value type as the
  module names it when it removes the callback, the renderer and the dictionary of each.
\<close>

datatype toggle = StringRepr | DfStyleFormatter | DataframeMetadataRepr

fun enable :: "toggle \<Rightarrow> world \<Rightarrow> exn + world" where
  "enable StringRepr = enable_string_repr"
| "enable DfStyleFormatter = enable_df_style_formatter"
| "enable DataframeMetadataRepr = enable_dataframe_metadata_repr"

fun disable :: "toggle \<Rightarrow> world \<Rightarrow> exn + world" where
  "disable StringRepr = disable_string_repr"
| "disable DfStyleFormatter = disable_df_style_formatter"
| "disable DataframeMetadataRepr = disable_dataframe_metadata_repr"

fun mime_of :: "toggle \<Rightarrow> string" where
  "mime_of StringRepr = INTRINSIC_MIME_TYPE"
| "mime_of DfStyleFormatter = ''text/html''"
| "mime_of DataframeMetadataRepr = INTRINSIC_MIME_TYPE"

fun type_of :: "toggle \<Rightarrow> typ_arg" where
  "type_of StringRepr = str_type"
| "type_of DfStyleFormatter = DottedName ''pandas.io.formats.style.Styler''"
| "type_of DataframeMetadataRepr = DottedName ''pandas.core.frame.DataFrame''"

fun renderer_of :: "toggle \<Rightarrow> callback" where
  "renderer_of StringRepr = StringIntrinsicRepr"
| "renderer_of DfStyleFormatter = NewFormatter"
| "renderer_of DataframeMetadataRepr = DataframeIntrinsicRepr"

fun originals :: "toggle \<Rightarrow> world \<Rightarrow> (string \<rightharpoonup> callback option)" where
  "originals StringRepr = original_string_formatters"
| "originals DfStyleFormatter = original_df_formatters"
| "originals DataframeMetadataRepr = original_dataframe_metadata_formatters"

text \<open>A feature has an override record when its key is in its dictionary.\<close>

definition has_record :: "toggle \<Rightarrow> world \<Rightarrow> bool" where
  "has_record t w = (mime_of t \<in> dom (originals t w))"

text \<open>
  The callback registered for a MIME type and a value type: what \<^verbatim>\<open>lookup_by_type\<close> of the
  dispatch table returns for the value type. It is \<open>None\<close> when no shell is active, the
  registry has no table for the MIME type, or the lookup raises \<^verbatim>\<open>KeyError\<close>.
\<close>

definition registered :: "world \<Rightarrow> string \<Rightarrow> typ_arg \<Rightarrow> callback option" where
  "registered w mime typ =
     (case get_ipython w of
        None \<Rightarrow> None
      | Some shell \<Rightarrow>
          (case formatters shell mime of
             None \<Rightarrow> None
           | Some fmt \<Rightarrow> or_none (fst (lookup_by_type typ fmt))))"

subsection \<open>String operations\<close>

text \<open>
  \<^verbatim>\<open>s.startswith(prefix)\<close> and \<^verbatim>\<open>s.partition(sep)\<close> for a separator of one character.
\<close>

definition startswith :: "pystr \<Rightarrow> pystr \<Rightarrow> bool" where
  "startswith s prefix = (take (length prefix) s = prefix)"

definition str_partition :: "pystr \<Rightarrow> nat \<Rightarrow> pystr \<times> pystr \<times> pystr" where
  "str_partition s sep =
     (if sep \<in> set s
      then (takeWhile (\<lambda>c. c \<noteq> sep) s, [sep], tl (dropWhile (\<lambda>c. c \<noteq> sep) s))
      else (s, [], []))"

text \<open>
  \<^verbatim>\<open>s.isidentifier()\<close>: the string is not empty, its first code point is an underscore or
  has the Unicode property XID_Start, and the others have the property XID_Continue. In
  ASCII, XID_Start is the letters and XID_Continue the letters, the digits and the
  underscore. Beyond ASCII the two properties are tables of the Unicode character database,
  which is not part of the module: they are parameters.
\<close>

record unicode =
  xid_start :: "nat \<Rightarrow> bool"
  xid_continue :: "nat \<Rightarrow> bool"

definition ascii_letter :: "nat \<Rightarrow> bool" where
  "ascii_letter c = ((65 \<le> c \<and> c \<le> 90) \<or> (97 \<le> c \<and> c \<le> 122))"

definition is_id_start :: "unicode \<Rightarrow> nat \<Rightarrow> bool" where
  "is_id_start ucd c = (c = 95 \<or> (if c < 128 then ascii_letter c else xid_start ucd c))"

definition is_id_continue :: "unicode \<Rightarrow> nat \<Rightarrow> bool" where
  "is_id_continue ucd c =
     (if c < 128 then ascii_letter c \<or> (48 \<le> c \<and> c \<le> 57) \<or> c = 95 else xid_continue ucd c)"

definition isidentifier :: "unicode \<Rightarrow> pystr \<Rightarrow> bool" where
  "isidentifier ucd s =
     (case s of [] \<Rightarrow> False | c # cs \<Rightarrow> is_id_start ucd c \<and> list_all (is_id_continue ucd) cs)"

subsection \<open>Summarizing a dataframe\<close>

text \<open>
  The tabular library is not part of the module. Its operations are parameters, one for each
  call of the source: \<^verbatim>\<open>df.columns.to_series()\<close>, \<^verbatim>\<open>df.var(numeric_only=True)\<close>,
  \<^verbatim>\<open>df.nunique()\<close>, \<^verbatim>\<open>df.dtypes\<close>, \<^verbatim>\<open>df.iloc[:1].T\<close>, \<^verbatim>\<open>pd.DataFrame().assign(...)\<close> with its
  keyword arguments in order, and \<^verbatim>\<open>to_string()\<close>. Each may raise. \<open>'s\<close> is the type of a
  column of the report, \<open>'t\<close> the type of the assembled report.
\<close>

record ('s, 't) pandas =
  columns_to_series :: "dataframe \<Rightarrow> exn + 's"
  var_numeric_only :: "dataframe \<Rightarrow> exn + 's"
  nunique :: "dataframe \<Rightarrow> exn + 's"
  dtypes :: "dataframe \<Rightarrow> exn + 's"
  iloc_head_T :: "dataframe \<Rightarrow> exn + 's"
  assign :: "(string \<times> 's) list \<Rightarrow> exn + 't"
  to_string :: "'t \<Rightarrow> exn + pystr"

definition MAX_DATAFRAME_ROWS :: nat where
  "MAX_DATAFRAME_ROWS = 100000"

definition MAX_DATAFRAME_COLS :: nat where
  "MAX_DATAFRAME_COLS = 20"

text \<open>The expression after \<^verbatim>\<open>return\<close>, its arguments evaluated from left to right.\<close>

definition summary_text :: "('s, 't) pandas \<Rightarrow> dataframe \<Rightarrow> exn + pystr" where
  "summary_text pd df =
     and_then (columns_to_series pd df) (\<lambda>name.
     and_then (var_numeric_only pd df) (\<lambda>variance.
     and_then (nunique pd df) (\<lambda>nuniq.
     and_then (dtypes pd df) (\<lambda>dtype.
     and_then (iloc_head_T pd df) (\<lambda>example_value.
     and_then (assign pd [(''name'', name), (''variance'', variance), (''nunique'', nuniq),
                          (''dtype'', dtype), (''example_value'', example_value)]) (\<lambda>report.
     to_string pd report))))))"

text \<open>
  \<^verbatim>\<open>except Exception: return None\<close> turns every exception into \<open>None\<close>. An object that is
  no dataframe has no \<^verbatim>\<open>columns\<close> (or no \<^verbatim>\<open>len\<close>), so the size check raises for it.
\<close>

fun summarize_dataframe :: "('s, 't) pandas \<Rightarrow> pyobj \<Rightarrow> pystr option" where
  "summarize_dataframe pd (DataFrame df) =
     (if nrows df > MAX_DATAFRAME_ROWS \<or> length (columns df) > MAX_DATAFRAME_COLS then None
      else (case summary_text pd df of Inl e \<Rightarrow> None | Inr s \<Rightarrow> Some s))"
| "summarize_dataframe pd obj = None"

subsection \<open>The dataframe renderer\<close>

text \<open>
  The payload of the dataframe renderer: its keys are literals of the program, its values
  are Python strings.
\<close>

type_synonym df_payload = "string \<rightharpoonup> pystr"

text \<open>The loop over \<^verbatim>\<open>namespace.items()\<close>; it stops at the first match.\<close>

fun identity_scan :: "addr \<Rightarrow> (pystr \<times> addr) list \<Rightarrow> pystr option" where
  "identity_scan dataframe [] = None"
| "identity_scan dataframe ((varname, var) # rest) =
     (if dataframe = var \<and> \<not> startswith varname (ascii ''_'') then Some varname
      else identity_scan dataframe rest)"

text \<open>
  \<^verbatim>\<open>ip.user_ns['In'][-1]\<close>: the dictionary lookup raises \<^verbatim>\<open>KeyError\<close> for a missing name, the
  index \<^verbatim>\<open>[-1]\<close> raises \<^verbatim>\<open>IndexError\<close> on an empty list or string; a dataframe has no column
  \<^verbatim>\<open>-1\<close> and other objects cannot be indexed.
\<close>

definition getitem :: "(pystr \<times> addr) list \<Rightarrow> pystr \<Rightarrow> exn + addr" where
  "getitem ns name = (case map_of ns name of None \<Rightarrow> Inl KeyError | Some a \<Rightarrow> Inr a)"

fun last_item :: "pyobj \<Rightarrow> exn + pyobj" where
  "last_item (List xs) = (if xs = [] then Inl IndexError else Inr (last xs))"
| "last_item (Str s) = (if s = [] then Inl IndexError else Inr (Str [last s]))"
| "last_item (DataFrame df) = Inl KeyError"
| "last_item Other = Inl TypeError"

definition last_input_line :: "heap \<Rightarrow> shell \<Rightarrow> exn + pyobj" where
  "last_input_line h ip = and_then (getitem (user_ns ip) (ascii ''In'')) (\<lambda>a. last_item (h a))"

text \<open>
  The block under \<^verbatim>\<open>if not found\<close>: the name and the object found through the last input
  line, if any. Only a string has \<^verbatim>\<open>partition\<close>; the separator is the dot, code point 46.
\<close>

definition head_fallback :: "unicode \<Rightarrow> heap \<Rightarrow> shell \<Rightarrow> exn + (pystr \<times> addr) option" where
  "head_fallback ucd h ip =
     and_then (last_input_line h ip) (\<lambda>last_line.
       case last_line of
         Str line \<Rightarrow>
           (let (varname, dot, operator) = str_partition line 46 in
            if isidentifier ucd varname \<and> dot \<noteq> [] \<and> startswith operator (ascii ''head('') then
              (case map_of (user_ns ip) varname of
                 None \<Rightarrow> Inr None
               | Some possible_df \<Rightarrow>
                   (case h possible_df of
                      DataFrame df \<Rightarrow> Inr (Some (varname, possible_df))
                    | _ \<Rightarrow> Inr None))
            else Inr None)
       | _ \<Rightarrow> Inl AttributeError)"

text \<open>
  The first part of the renderer: the payload so far and the object to summarize.
\<close>

definition resolve_variable ::
  "unicode \<Rightarrow> heap \<Rightarrow> shell option \<Rightarrow> addr \<Rightarrow> exn + (df_payload \<times> addr)" where
  "resolve_variable ucd h ipython dataframe =
     (let result = [''type'' \<mapsto> ascii ''dataframe''] in
      case ipython of
        None \<Rightarrow> Inr (result, dataframe)
      | Some ip \<Rightarrow>
          (case identity_scan dataframe (user_ns ip) of
             Some varname \<Rightarrow> Inr (result(''variable_name'' \<mapsto> varname), dataframe)
           | None \<Rightarrow>
               and_then (head_fallback ucd h ip) (\<lambda>found.
                 case found of
                   None \<Rightarrow> Inr (result, dataframe)
                 | Some (varname, possible_df) \<Rightarrow>
                     Inr (result(''variable_name'' \<mapsto> varname), possible_df))))"

definition dataframe_intrinsic_repr ::
  "unicode \<Rightarrow> ('s, 't) pandas \<Rightarrow> heap \<Rightarrow> shell option \<Rightarrow> addr \<Rightarrow> exn + df_payload" where
  "dataframe_intrinsic_repr ucd pd h ipython dataframe =
     and_then (resolve_variable ucd h ipython dataframe) (\<lambda>(result, dataframe).
       case summarize_dataframe pd (h dataframe) of
         None \<Rightarrow> Inr result
       | Some summary \<Rightarrow>
           if summary \<noteq> [] then Inr (result(''summary'' \<mapsto> summary)) else Inr result)"

subsection \<open>The state at import time and the slot after an effective enable\<close>

text \<open>At import time the three dictionaries of the module are empty.\<close>

definition fresh_world :: "shell option \<Rightarrow> world" where
  "fresh_world ip =
     \<lparr>get_ipython = ip,
      original_string_formatters = Map.empty,
      original_df_formatters = Map.empty,
      original_dataframe_metadata_formatters = Map.empty\<rparr>"

text \<open>The dispatch table of a MIME type, a new one when the registry has none.\<close>

definition table_of :: "shell \<Rightarrow> string \<Rightarrow> formatter" where
  "table_of sh mime = (case formatters sh mime of None \<Rightarrow> IntrinsicTypeFormatter | Some fmt \<Rightarrow> fmt)"

text \<open>
  The call by which a toggle installs a callback in a dispatch table, and the table after
  the renderer has been installed, removed, and the saved callback installed again.
\<close>

fun install :: "toggle \<Rightarrow> callback option \<Rightarrow> formatter \<Rightarrow> callback option \<times> formatter" where
  "install StringRepr = for_type str_class [object_class]"
| "install DfStyleFormatter = for_type_by_name ''pandas.io.formats.style'' ''Styler''"
| "install DataframeMetadataRepr = for_type_by_name ''pandas.core.frame'' ''DataFrame''"

definition put_back :: "toggle \<Rightarrow> formatter \<Rightarrow> formatter" where
  "put_back t fmt =
     (case pop (type_of t) (snd (install t (Some (renderer_of t)) fmt)) of
        Inl e \<Rightarrow> snd (install t (Some (renderer_of t)) fmt)
      | Inr (popped, fmt2) \<Rightarrow> snd (install t (fst (install t (Some (renderer_of t)) fmt)) fmt2))"

text \<open>
  The state that an enable reaches when it takes effect on shell \<open>sh\<close>, and the state after
  the disable that follows.
\<close>

definition installed :: "toggle \<Rightarrow> world \<Rightarrow> shell \<Rightarrow> world" where
  "installed t w sh =
     (let r = install t (Some (renderer_of t)) (table_of sh (mime_of t));
          w1 = w\<lparr>get_ipython := Some (sh\<lparr>formatters := (formatters sh)(mime_of t \<mapsto> snd r)\<rparr>)\<rparr>;
          saved = (originals t w)(mime_of t \<mapsto> fst r)
      in case t of
           StringRepr \<Rightarrow> w1\<lparr>original_string_formatters := saved\<rparr>
         | DfStyleFormatter \<Rightarrow> w1\<lparr>original_df_formatters := saved\<rparr>
         | DataframeMetadataRepr \<Rightarrow> w1\<lparr>original_dataframe_metadata_formatters := saved\<rparr>)"

definition restored :: "toggle \<Rightarrow> world \<Rightarrow> shell \<Rightarrow> world" where
  "restored t w sh =
     w\<lparr>get_ipython := Some (sh\<lparr>formatters :=
          (formatters sh)(mime_of t \<mapsto> put_back t (table_of sh (mime_of t)))\<rparr>)\<rparr>"

text \<open>
  Three shells: one whose HTML table has a callback of the host for styled tables, given by
  name; one whose intrinsic table has a callback of the host for \<^verbatim>\<open>object\<close>; one without any
  dispatch table.
\<close>

definition styled_shell :: shell where
  "styled_shell =
     \<lparr>formatters =
        [''text/html'' \<mapsto>
           \<lparr>type_printers = Map.empty,
            deferred_printers = [(''pandas.io.formats.style'', ''Styler'') \<mapsto> Foreign 7]\<rparr>],
      user_ns = []\<rparr>"



subsection \<open>The summary entry of a payload\<close>

text \<open>
  What \<^verbatim>\<open>if summary := _summarize_dataframe(dataframe)\<close> leaves under the key "summary" for an
  object: nothing for \<^verbatim>\<open>None\<close> and for the empty string.
\<close>

definition summary_entry :: "('s, 't) pandas \<Rightarrow> pyobj \<Rightarrow> pystr option" where
  "summary_entry pd obj =
     (case summarize_dataframe pd obj of
        None \<Rightarrow> None
      | Some s \<Rightarrow> if s \<noteq> [] then Some s else None)"

subsection \<open>A small notebook session\<close>

text \<open>
  A stand-in for the tabular library: a column of the report is a list of printed values, the
  report is the list of its named columns, and its text is the header line. Taking the first
  row of a dataframe without rows raises. The stand-in for the character database takes
  the accented letters of Latin-1 as identifier characters.
\<close>

definition stub_pandas :: "(pystr list, (string \<times> pystr list) list) pandas" where
  "stub_pandas =
     \<lparr>columns_to_series = (\<lambda>df. Inr (columns df)),
      var_numeric_only = (\<lambda>df. Inr (map (\<lambda>c. ascii ''NaN'') (columns df))),
      nunique = (\<lambda>df. Inr (map (\<lambda>c. ascii ''1'') (columns df))),
      dtypes = (\<lambda>df. Inr (map (\<lambda>c. ascii ''object'') (columns df))),
      iloc_head_T = (\<lambda>df. case cells df of [] \<Rightarrow> Inl ValueError | row # rest \<Rightarrow> Inr row),
      assign = (\<lambda>kwargs. Inr kwargs),
      to_string = (\<lambda>report. Inr (concat (map (\<lambda>(label, col). ascii ('' '' @ label)) report)))\<rparr>"

definition latin1 :: unicode where
  "latin1 =
     \<lparr>xid_start = (\<lambda>c. 192 \<le> c \<and> c \<le> 255 \<and> c \<noteq> 215 \<and> c \<noteq> 247),
      xid_continue = (\<lambda>c. 192 \<le> c \<and> c \<le> 255 \<and> c \<noteq> 215 \<and> c \<noteq> 247)\<rparr>"

definition full_frame :: dataframe where
  "full_frame =
     \<lparr>nrows = 3, columns = [ascii ''x'', ascii ''y''],
      cells = [[ascii ''1'', ascii ''a''], [ascii ''2'', ascii ''b''], [ascii ''3'', ascii ''c'']]\<rparr>"

definition head_frame :: dataframe where
  "head_frame =
     \<lparr>nrows = 2, columns = [ascii ''x'', ascii ''y''],
      cells = [[ascii ''1'', ascii ''a''], [ascii ''2'', ascii ''b'']]\<rparr>"

definition empty_frame :: dataframe where
  "empty_frame = \<lparr>nrows = 0, columns = [ascii ''x'', ascii ''y''], cells = []\<rparr>"

text \<open>
  Address 1 holds the full dataframe, 2 a truncated view of it, 5 an equal copy of the full
  one, 6 a dataframe without rows; 3, 4 and 7 are three input histories, the last one with
  a line \<^verbatim>\<open>name.head()\<close> whose name is the code points 100 and 233, a letter d and a
  letter e with an acute accent.
\<close>

definition notebook_heap :: heap where
  "notebook_heap a =
     (if a = 1 then DataFrame full_frame
      else if a = 2 then DataFrame head_frame
      else if a = 3 then List [Str [], Str (ascii ''df.head()'')]
      else if a = 4 then List [Str [], Str (ascii ''print(df)'')]
      else if a = 5 then DataFrame full_frame
      else if a = 6 then DataFrame empty_frame
      else if a = 7 then List [Str ([100, 233] @ ascii ''.head()'')]
      else Other)"

definition notebook :: "(pystr \<times> addr) list \<Rightarrow> shell" where
  "notebook ns = \<lparr>formatters = Map.empty, user_ns = ns\<rparr>"

section \<open>Properties\<close>

text \<open>
  C6. For every input value, the string renderer returns the mapping with the single key
  "type", mapped to "string".
\<close>

theorem string_intrinsic_repr_constant:
  "string_intrinsic_repr x = [''type'' \<mapsto> ''string'']
   \<and> dom (string_intrinsic_repr x) = {''type''}
   \<and> string_intrinsic_repr x ''type'' = Some ''string''"
  by (simp add: string_intrinsic_repr_def)

subsection \<open>The dispatch table and the toggles\<close>

lemma and_then_Inr [simp]: "and_then (Inr x) k = k x"
  by (simp add: and_then_def)

lemma and_then_Inl [simp]: "and_then (Inl e) k = Inl e"
  by (simp add: and_then_def)

lemma rsplit_styler:
  "rsplit_dot ''pandas.io.formats.style.Styler'' = Some (''pandas.io.formats.style'', ''Styler'')"
  by (simp add: rsplit_dot_def)

lemma rsplit_dataframe:
  "rsplit_dot ''pandas.core.frame.DataFrame'' = Some (''pandas.core.frame'', ''DataFrame'')"
  by (simp add: rsplit_dot_def)

lemmas registry_defs =
  for_type_def for_type_by_name_def pop_def lookup_by_type_def lookup_by_name_def
  in_deferred_types_def printer_at_def or_none_def str_type_def
  rsplit_styler rsplit_dataframe

lemmas toggle_defs =
  enable_string_repr_def disable_string_repr_def
  enable_df_style_formatter_def disable_df_style_formatter_def
  enable_dataframe_metadata_repr_def disable_dataframe_metadata_repr_def
  register_intrinsic_mimetype_def


lemma install_returns_lookup:
  "fst (install t func fmt) = or_none (fst (lookup_by_type (type_of t) fmt))"
  by (cases t) (simp_all add: for_type_def for_type_by_name_def str_type_def split: prod.splits)

lemma lookup_after_install:
  "or_none (fst (lookup_by_type (type_of t) (snd (install t (Some f) fmt)))) = Some f"
  by (cases t)
     (auto simp: registry_defs Let_def domIff split: prod.splits option.splits if_splits)

lemma pop_after_install:
  "\<exists>fmt2. pop (type_of t) (snd (install t (Some f) fmt)) = Inr (f, fmt2)"
  by (cases t)
     (auto simp: registry_defs Let_def domIff split: prod.splits option.splits if_splits)












lemma disable_no_record: "\<not> has_record t w \<Longrightarrow> disable t w = Inr w"
  by (cases t) (auto simp: has_record_def toggle_defs Let_def)

lemma disable_drops_record: "disable t w = Inr w1 \<Longrightarrow> \<not> has_record t w1"
  by (cases t)
     (auto simp: has_record_def toggle_defs Let_def domIff case_prod_beta
           split: option.splits sum.splits if_splits)

lemma enable_no_shell: "get_ipython w = None \<Longrightarrow> enable t w = Inr w"
  by (cases t) (auto simp: toggle_defs Let_def domIff split: option.splits)

lemma enable_installs:
  assumes "\<not> has_record t w" "get_ipython w = Some sh"
    and "t = DfStyleFormatter \<longrightarrow> ''text/html'' \<in> dom (formatters sh)"
  shows "enable t w = Inr (installed t w sh)"
  using assms
  by (cases t)
     (auto simp: has_record_def installed_def table_of_def toggle_defs Let_def domIff
           case_prod_beta split: option.splits)

lemma disable_installed:
  assumes "\<not> has_record t w"
  shows "disable t (installed t w sh) = Inr (restored t w sh)"
proof -
  have o: "(originals t w)(mime_of t := None) = originals t w"
    using assms by (auto simp: has_record_def domIff fun_eq_iff)
  obtain fmt2 where
    p: "pop (type_of t) (snd (install t (Some (renderer_of t)) (table_of sh (mime_of t))))
          = Inr (renderer_of t, fmt2)"
    using pop_after_install by blast
  show ?thesis
  proof (cases t)
    case StringRepr
    with o p show ?thesis
      by (simp add: installed_def restored_def put_back_def toggle_defs Let_def domIff
            case_prod_beta)
  next
    case DfStyleFormatter
    with o p show ?thesis
      by (simp add: installed_def restored_def put_back_def toggle_defs Let_def domIff
            case_prod_beta)
  next
    case DataframeMetadataRepr
    with o p show ?thesis
      by (simp add: installed_def restored_def put_back_def toggle_defs Let_def domIff
            case_prod_beta)
  qed
qed


lemma installed_slot:
  "registered (installed t w sh) (mime_of t) (type_of t) = Some (renderer_of t)
   \<and> originals t (installed t w sh) (mime_of t)
       = Some (or_none (fst (lookup_by_type (type_of t) (table_of sh (mime_of t)))))"
  by (cases t)
     (simp_all add: installed_def registered_def Let_def install_returns_lookup
        lookup_after_install del: install.simps type_of.simps renderer_of.simps)




lemma fresh_no_record: "\<not> has_record t (fresh_world ip)"
  by (cases t) (simp_all add: has_record_def fresh_world_def)



text \<open>
  C3. For every toggle and every state, \<^verbatim>\<open>enable()\<close> called twice in a row gives the state
  (registry and saved callbacks) that one call gives; if the first call raises, so does the
  sequence.
\<close>

theorem enable_twice_is_once: "and_then (enable t w) (enable t) = enable t w"
  by (cases t)
     (auto simp: and_then_def toggle_defs Let_def domIff case_prod_beta
           split: option.splits sum.splits)

text \<open>
  C4. For every toggle, \<^verbatim>\<open>disable()\<close> without an override record returns without raising and
  leaves the whole state unchanged; a \<^verbatim>\<open>disable()\<close> after one that returned changes nothing.
\<close>

theorem disable_without_record_is_noop:
  "(\<not> has_record t w \<longrightarrow> disable t w = Inr w)
   \<and> (disable t w = Inr w1 \<longrightarrow> disable t w1 = Inr w1)"
  using disable_no_record disable_drops_record by blast

text \<open>
  C10. When no shell is active, \<^verbatim>\<open>enable()\<close> returns and changes nothing, so no override record
  is stored. If the toggle had none, a following \<^verbatim>\<open>disable()\<close> changes nothing either, and an
  \<^verbatim>\<open>enable()\<close> once a shell is active (with an HTML table, for the style formatter) puts the
  renderer in the slot and stores the record.
\<close>

theorem enable_without_shell_is_inert:
  assumes "get_ipython w = None"
  shows "enable t w = Inr w
     \<and> (\<not> has_record t w \<longrightarrow>
          disable t w = Inr w
          \<and> (\<forall>sh. (t = DfStyleFormatter \<longrightarrow> ''text/html'' \<in> dom (formatters sh)) \<longrightarrow>
                (\<exists>w'. enable t (w\<lparr>get_ipython := Some sh\<rparr>) = Inr w'
                   \<and> registered w' (mime_of t) (type_of t) = Some (renderer_of t)
                   \<and> has_record t w')))"
proof -
  have 1: "enable t w = Inr w" using assms by (rule enable_no_shell)
  have 2: "disable t w = Inr w" if "\<not> has_record t w" using that by (rule disable_no_record)
  have 3: "\<exists>w'. enable t (w\<lparr>get_ipython := Some sh\<rparr>) = Inr w'
                   \<and> registered w' (mime_of t) (type_of t) = Some (renderer_of t)
                   \<and> has_record t w'"
    if n: "\<not> has_record t w" and h: "t = DfStyleFormatter \<longrightarrow> ''text/html'' \<in> dom (formatters sh)"
    for sh
  proof -
    let ?w = "w\<lparr>get_ipython := Some sh\<rparr>"
    have "\<not> has_record t ?w" using n by (cases t) (simp_all add: has_record_def)
    moreover have "get_ipython ?w = Some sh" by simp
    ultimately have "enable t ?w = Inr (installed t ?w sh)" using h by (rule enable_installs)
    moreover have "has_record t (installed t ?w sh)"
      using installed_slot[of t ?w sh] by (auto simp: has_record_def)
    ultimately show ?thesis using installed_slot[of t ?w sh] by blast
  qed
  from 1 2 3 show ?thesis by blast
qed


theorem enable_twice_is_once_witness:
  "and_then (enable StringRepr (fresh_world (Some styled_shell))) (enable StringRepr)
     = enable StringRepr (fresh_world (Some styled_shell))
   \<and> enable StringRepr (fresh_world (Some styled_shell))
     = Inr (installed StringRepr (fresh_world (Some styled_shell)) styled_shell)"
proof -
  have "enable StringRepr (fresh_world (Some styled_shell))
     = Inr (installed StringRepr (fresh_world (Some styled_shell)) styled_shell)"
    using fresh_no_record[of StringRepr "Some styled_shell"]
    by (rule enable_installs) (simp_all add: fresh_world_def)
  with enable_twice_is_once[of StringRepr "fresh_world (Some styled_shell)"]
  show ?thesis by simp
qed

theorem disable_without_record_is_noop_witness:
  "\<not> has_record DataframeMetadataRepr (fresh_world (Some styled_shell))
   \<and> disable DataframeMetadataRepr (fresh_world (Some styled_shell))
       = Inr (fresh_world (Some styled_shell))
   \<and> disable StringRepr (installed StringRepr (fresh_world (Some styled_shell)) styled_shell)
       = Inr (restored StringRepr (fresh_world (Some styled_shell)) styled_shell)
   \<and> disable StringRepr (restored StringRepr (fresh_world (Some styled_shell)) styled_shell)
       = Inr (restored StringRepr (fresh_world (Some styled_shell)) styled_shell)"
proof -
  let ?w = "fresh_world (Some styled_shell)"
  have n: "\<not> has_record DataframeMetadataRepr ?w" by (rule fresh_no_record)
  have d: "disable StringRepr (installed StringRepr ?w styled_shell)
             = Inr (restored StringRepr ?w styled_shell)"
    by (rule disable_installed) (rule fresh_no_record)
  from disable_without_record_is_noop[of DataframeMetadataRepr ?w ?w] n
    disable_without_record_is_noop[of StringRepr "installed StringRepr ?w styled_shell"
      "restored StringRepr ?w styled_shell"] d
  show ?thesis by simp
qed

theorem enable_without_shell_is_inert_witness:
  "get_ipython (fresh_world None) = None
   \<and> \<not> has_record DataframeMetadataRepr (fresh_world None)
   \<and> enable DataframeMetadataRepr (fresh_world None) = Inr (fresh_world None)
   \<and> disable DataframeMetadataRepr (fresh_world None) = Inr (fresh_world None)
   \<and> (\<exists>w'. enable DataframeMetadataRepr (fresh_world (Some styled_shell)) = Inr w'
         \<and> registered w' INTRINSIC_MIME_TYPE (DottedName ''pandas.core.frame.DataFrame'')
             = Some DataframeIntrinsicRepr
         \<and> has_record DataframeMetadataRepr w')"
proof -
  have g: "get_ipython (fresh_world None) = None" by (simp add: fresh_world_def)
  have n: "\<not> has_record DataframeMetadataRepr (fresh_world None)" by (rule fresh_no_record)
  have u: "(fresh_world None)\<lparr>get_ipython := Some styled_shell\<rparr> = fresh_world (Some styled_shell)"
    by (simp add: fresh_world_def)
  from enable_without_shell_is_inert[OF g, of DataframeMetadataRepr] n
  have "enable DataframeMetadataRepr (fresh_world None) = Inr (fresh_world None)"
    and "disable DataframeMetadataRepr (fresh_world None) = Inr (fresh_world None)"
    and "\<exists>w'. enable DataframeMetadataRepr ((fresh_world None)\<lparr>get_ipython := Some styled_shell\<rparr>)
                = Inr w'
         \<and> registered w' (mime_of DataframeMetadataRepr) (type_of DataframeMetadataRepr)
             = Some (renderer_of DataframeMetadataRepr)
         \<and> has_record DataframeMetadataRepr w'"
    by simp_all
  with g n show ?thesis unfolding u by simp
qed

subsection \<open>Strings, the identity scan and the fallback\<close>

lemma str_partition_at_first:
  assumes "sep \<notin> set pre"
  shows "str_partition (pre @ sep # post) sep = (pre, [sep], post)"
proof -
  have 1: "takeWhile (\<lambda>c. c \<noteq> sep) (pre @ sep # post) = pre"
    using assms by (induction pre) auto
  have 2: "dropWhile (\<lambda>c. c \<noteq> sep) (pre @ sep # post) = sep # post"
    using assms by (induction pre) auto
  show ?thesis unfolding str_partition_def 1 2 by simp
qed

lemma str_partition_split:
  assumes "str_partition s sep = (a, b, c)" "b \<noteq> []"
  shows "s = a @ sep # c \<and> sep \<notin> set a \<and> b = [sep]"
proof -
  from assms have mem: "sep \<in> set s"
    by (auto simp: str_partition_def split: if_splits)
  with assms have a: "a = takeWhile (\<lambda>c. c \<noteq> sep) s" and b: "b = [sep]"
    and c: "c = tl (dropWhile (\<lambda>c. c \<noteq> sep) s)"
    by (auto simp: str_partition_def)
  from mem have "dropWhile (\<lambda>c. c \<noteq> sep) s \<noteq> []" by (induction s) auto
  moreover from this have "hd (dropWhile (\<lambda>c. c \<noteq> sep) s) = sep"
    using hd_dropWhile[of "\<lambda>c. c \<noteq> sep" s] by simp
  ultimately have "dropWhile (\<lambda>c. c \<noteq> sep) s = sep # c"
    using c by (cases "dropWhile (\<lambda>c. c \<noteq> sep) s") auto
  then have "s = a @ sep # c"
    using a takeWhile_dropWhile_id[of "\<lambda>c. c \<noteq> sep" s] by simp
  moreover have "sep \<notin> set a" using a by (auto dest: set_takeWhileD)
  ultimately show ?thesis using b by simp
qed

lemma is_id_continue_not_dot: "is_id_continue ucd c \<Longrightarrow> c \<noteq> 46"
  by (auto simp: is_id_continue_def ascii_letter_def)

lemma is_id_start_not_dot: "is_id_start ucd c \<Longrightarrow> c \<noteq> 46"
  by (auto simp: is_id_start_def ascii_letter_def)

lemma isidentifier_no_dot: "isidentifier ucd v \<Longrightarrow> 46 \<notin> set v"
proof (cases v)
  case Nil
  then show ?thesis by simp
next
  case (Cons c cs)
  assume "isidentifier ucd v"
  with Cons have "is_id_start ucd c" "list_all (is_id_continue ucd) cs"
    by (simp_all add: isidentifier_def)
  then have "\<forall>x \<in> set v. x \<noteq> 46"
    using Cons is_id_continue_not_dot is_id_start_not_dot by (auto simp: list_all_iff)
  then show ?thesis by blast
qed

lemma ascii_df_head: "ascii ''df.head()'' = ascii ''df'' @ 46 # ascii ''head()''"
  by (simp add: ascii_def)

lemma isidentifier_df: "isidentifier ucd (ascii ''df'')"
  by (simp add: isidentifier_def is_id_start_def is_id_continue_def ascii_letter_def ascii_def)

lemma startswith_head: "startswith (ascii ''head()'') (ascii ''head('')"
  by (simp add: startswith_def ascii_def)

lemma partition_print: "str_partition (ascii ''print(df)'') 46 = (ascii ''print(df)'', [], [])"
  by (simp add: str_partition_def ascii_def)

lemma scan_none: "(identity_scan d ns = None) = list_all (\<lambda>(m, v). v \<noteq> d \<or> startswith m (ascii ''_'')) ns"
  by (induction ns) (auto split: if_splits)

lemma scan_first:
  "identity_scan d pre = None \<Longrightarrow> \<not> startswith n (ascii ''_'') \<Longrightarrow> identity_scan d (pre @ (n, d) # post) = Some n"
  by (induction pre) (auto split: if_splits)

lemma scan_some:
  "identity_scan d ns = Some n \<Longrightarrow>
     \<exists>pre post. ns = pre @ (n, d) # post \<and> identity_scan d pre = None \<and> \<not> startswith n (ascii ''_'')"
proof (induction ns)
  case Nil
  then show ?case by simp
next
  case (Cons p ns)
  obtain m v where p: "p = (m, v)" by (cases p)
  show ?case
  proof (cases "d = v \<and> \<not> startswith m (ascii ''_'')")
    case True
    with Cons.prems p have "n = m" by simp
    with True p have "p # ns = [] @ (n, d) # ns \<and> identity_scan d [] = None \<and> \<not> startswith n (ascii ''_'')"
      by simp
    then show ?thesis by blast
  next
    case False
    with Cons.prems p have "identity_scan d ns = Some n" by auto
    from Cons.IH[OF this] obtain pre post where
      "ns = pre @ (n, d) # post" "identity_scan d pre = None" "\<not> startswith n (ascii ''_'')" by blast
    with False p have "p # ns = (p # pre) @ (n, d) # post \<and> identity_scan d (p # pre) = None
        \<and> \<not> startswith n (ascii ''_'')"
      by auto
    then show ?thesis by blast
  qed
qed

text \<open>The payload after the summary step.\<close>

lemma repr_of_resolve:
  "resolve_variable ucd h ipython d = Inr (res, d') \<Longrightarrow>
   dataframe_intrinsic_repr ucd pd h ipython d =
     Inr (case summarize_dataframe pd (h d') of
            None \<Rightarrow> res
          | Some s \<Rightarrow> if s \<noteq> [] then res(''summary'' \<mapsto> s) else res)"
  by (simp add: dataframe_intrinsic_repr_def split: option.splits)

lemma repr_raises:
  "resolve_variable ucd h ipython d = Inl e \<Longrightarrow> dataframe_intrinsic_repr ucd pd h ipython d = Inl e"
  by (simp add: dataframe_intrinsic_repr_def)

lemma resolve_no_shell:
  "resolve_variable ucd h None d = Inr ([''type'' \<mapsto> ascii ''dataframe''], d)"
  by (simp add: resolve_variable_def)

lemma resolve_scan:
  "identity_scan d (user_ns ip) = Some n \<Longrightarrow>
   resolve_variable ucd h (Some ip) d = Inr ([''type'' \<mapsto> ascii ''dataframe'', ''variable_name'' \<mapsto> n], d)"
  by (simp add: resolve_variable_def)

lemma resolve_fallback:
  "identity_scan d (user_ns ip) = None \<Longrightarrow>
   resolve_variable ucd h (Some ip) d =
     (case head_fallback ucd h ip of
        Inl e \<Rightarrow> Inl e
      | Inr None \<Rightarrow> Inr ([''type'' \<mapsto> ascii ''dataframe''], d)
      | Inr (Some (v, p)) \<Rightarrow> Inr ([''type'' \<mapsto> ascii ''dataframe'', ''variable_name'' \<mapsto> v], p))"
  by (simp add: resolve_variable_def and_then_def split: sum.splits option.splits)

lemma head_fallback_of_line:
  "last_input_line h ip = Inr (Str line) \<Longrightarrow>
   head_fallback ucd h ip =
     (let (varname, dot, operator) = str_partition line 46 in
      if isidentifier ucd varname \<and> dot \<noteq> [] \<and> startswith operator (ascii ''head('') then
        (case map_of (user_ns ip) varname of
           None \<Rightarrow> Inr None
         | Some possible_df \<Rightarrow>
             (case h possible_df of
                DataFrame df \<Rightarrow> Inr (Some (varname, possible_df))
              | _ \<Rightarrow> Inr None))
      else Inr None)"
  by (simp add: head_fallback_def)

lemma head_fallback_returns:
  "last_input_line h ip = Inr (Str line) \<Longrightarrow> \<exists>f. head_fallback ucd h ip = Inr f"
  by (simp add: head_fallback_of_line Let_def split: prod.splits option.splits pyobj.splits)

lemma head_fallback_not_str:
  "last_input_line h ip = Inr obj \<Longrightarrow> \<forall>line. obj \<noteq> Str line \<Longrightarrow> head_fallback ucd h ip = Inl AttributeError"
  by (cases obj) (simp_all add: head_fallback_def)

lemma head_fallback_raises:
  "last_input_line h ip = Inl e \<Longrightarrow> head_fallback ucd h ip = Inl e"
  by (simp add: head_fallback_def)

lemma last_input_line_of_list:
  "map_of (user_ns ip) (ascii ''In'') = Some b \<Longrightarrow> h b = List lines \<Longrightarrow> lines \<noteq> [] \<Longrightarrow>
   last_input_line h ip = Inr (last lines)"
  by (simp add: last_input_line_def getitem_def)

lemma head_fallback_some_iff:
  "head_fallback ucd h ip = Inr (Some (v, p)) \<longleftrightarrow>
     (\<exists>line tail T. last_input_line h ip = Inr (Str line) \<and> line = v @ 46 # tail
        \<and> isidentifier ucd v \<and> startswith tail (ascii ''head('')
        \<and> map_of (user_ns ip) v = Some p \<and> h p = DataFrame T)"
proof
  assume L: "head_fallback ucd h ip = Inr (Some (v, p))"
  then obtain obj where o: "last_input_line h ip = Inr obj"
    by (cases "last_input_line h ip") (simp_all add: head_fallback_def)
  with L obtain line where l: "obj = Str line"
    using head_fallback_not_str[OF o] by fastforce
  obtain a b c where part: "str_partition line 46 = (a, b, c)"
    by (cases "str_partition line 46") auto
  from L o l part have cond: "isidentifier ucd a" "b \<noteq> []" "startswith c (ascii ''head('')"
    by (auto simp: head_fallback_of_line split: if_splits)
  from L o l part cond have "a = v \<and> map_of (user_ns ip) v = Some p \<and> (\<exists>T. h p = DataFrame T)"
    by (auto simp: head_fallback_of_line split: option.splits pyobj.splits)
  moreover from str_partition_split[OF part cond(2)] have "line = a @ 46 # c" by simp
  ultimately show "\<exists>line tail T. last_input_line h ip = Inr (Str line) \<and> line = v @ 46 # tail
        \<and> isidentifier ucd v \<and> startswith tail (ascii ''head('')
        \<and> map_of (user_ns ip) v = Some p \<and> h p = DataFrame T"
    using o l cond by blast
next
  assume "\<exists>line tail T. last_input_line h ip = Inr (Str line) \<and> line = v @ 46 # tail
        \<and> isidentifier ucd v \<and> startswith tail (ascii ''head('')
        \<and> map_of (user_ns ip) v = Some p \<and> h p = DataFrame T"
  then obtain line tail T where *: "last_input_line h ip = Inr (Str line)" "line = v @ 46 # tail"
     "isidentifier ucd v" "startswith tail (ascii ''head('')" "map_of (user_ns ip) v = Some p" "h p = DataFrame T"
    by blast
  from *(3) have "46 \<notin> set v" by (rule isidentifier_no_dot)
  then have "str_partition line 46 = (v, [46], tail)"
    using *(2) str_partition_at_first[of 46 v tail] by simp
  with * show "head_fallback ucd h ip = Inr (Some (v, p))"
    by (simp add: head_fallback_of_line)
qed

lemma summarize_none_iff:
  "(summarize_dataframe pd (DataFrame df) = None) =
      (nrows df > 100000 \<or> length (columns df) > 20 \<or> (\<exists>e. summary_text pd df = Inl e))"
  by (cases "summary_text pd df") (simp_all add: MAX_DATAFRAME_ROWS_def MAX_DATAFRAME_COLS_def)

lemma summarize_not_dataframe:
  "(\<forall>df. obj \<noteq> DataFrame df) \<Longrightarrow> summarize_dataframe pd obj = None"
  by (cases obj) simp_all

lemma summary_entry_none:
  "summarize_dataframe pd obj = None \<Longrightarrow> summary_entry pd obj = None"
  by (simp add: summary_entry_def)

subsection \<open>The dataframe renderer\<close>

lemma repr_payload:
  assumes "resolve_variable ucd h ipython d = Inr (res, d')" "res ''summary'' = None"
  shows "\<exists>r. dataframe_intrinsic_repr ucd pd h ipython d = Inr r
           \<and> r ''type'' = res ''type'' \<and> r ''variable_name'' = res ''variable_name''
           \<and> r ''summary'' = summary_entry pd (h d')
           \<and> dom r \<subseteq> dom res \<union> {''summary''}"
  using assms
  by (auto simp: repr_of_resolve[OF assms(1)] summary_entry_def split: option.splits if_splits)

text \<open>
  C7. When the identity scan finds no match, the namespace binds "df" to a dataframe \<open>T\<close> and
  the last input line is "df.head()", the renderer sets "variable_name" to "df" and the
  summary is that of \<open>T\<close>, whatever the displayed object is. The fallback yields a name \<open>v\<close>
  and an object exactly when the last input line is \<open>v\<close>, a dot and a tail beginning with
  "head(", \<open>v\<close> is an identifier (so the dot is the first one of the line), and the namespace
  binds \<open>v\<close> to a dataframe; after a scan without match the renderer sets a variable name in
  no other way.
\<close>

theorem head_fallback_summarizes_namespace_object:
  "(identity_scan d (user_ns ip) = None
      \<and> map_of (user_ns ip) (ascii ''df'') = Some a \<and> h a = DataFrame T
      \<and> map_of (user_ns ip) (ascii ''In'') = Some b \<and> h b = List lines
      \<and> lines \<noteq> [] \<and> last lines = Str (ascii ''df.head()'')
    \<longrightarrow> (\<exists>r. dataframe_intrinsic_repr ucd pd h (Some ip) d = Inr r
            \<and> r ''type'' = Some (ascii ''dataframe'')
            \<and> r ''variable_name'' = Some (ascii ''df'')
            \<and> r ''summary'' = summary_entry pd (DataFrame T)))
   \<and> (head_fallback ucd h ip = Inr (Some (v, p)) \<longleftrightarrow>
        (\<exists>line tail T'. last_input_line h ip = Inr (Str line) \<and> line = v @ 46 # tail
           \<and> isidentifier ucd v \<and> startswith tail (ascii ''head('')
           \<and> map_of (user_ns ip) v = Some p \<and> h p = DataFrame T'))
   \<and> (identity_scan d (user_ns ip) = None
        \<and> dataframe_intrinsic_repr ucd pd h (Some ip) d = Inr r' \<and> r' ''variable_name'' = Some v
      \<longrightarrow> (\<exists>p'. head_fallback ucd h ip = Inr (Some (v, p'))
             \<and> r' ''summary'' = summary_entry pd (h p')))"
proof -
  have 1: "\<exists>r. dataframe_intrinsic_repr ucd pd h (Some ip) d = Inr r
            \<and> r ''type'' = Some (ascii ''dataframe'')
            \<and> r ''variable_name'' = Some (ascii ''df'')
            \<and> r ''summary'' = summary_entry pd (DataFrame T)"
    if s: "identity_scan d (user_ns ip) = None"
      and df: "map_of (user_ns ip) (ascii ''df'') = Some a" "h a = DataFrame T"
      and inp: "map_of (user_ns ip) (ascii ''In'') = Some b" "h b = List lines"
        "lines \<noteq> []" "last lines = Str (ascii ''df.head()'')"
  proof -
    have "last_input_line h ip = Inr (Str (ascii ''df.head()''))"
      using last_input_line_of_list[of ip b h lines] inp by simp
    moreover note ascii_df_head
    moreover have "isidentifier ucd (ascii ''df'')" by (rule isidentifier_df)
    moreover note startswith_head
    ultimately have "head_fallback ucd h ip = Inr (Some (ascii ''df'', a))"
      using df head_fallback_some_iff[where ucd = ucd and h = h and ip = ip
          and v = "ascii ''df''" and p = a]
      by blast
    then have "resolve_variable ucd h (Some ip) d
        = Inr ([''type'' \<mapsto> ascii ''dataframe'', ''variable_name'' \<mapsto> ascii ''df''], a)"
      using s by (simp add: resolve_fallback)
    from repr_payload[OF this, where pd = pd] df(2) show ?thesis by auto
  qed
  have 3: "\<exists>p'. head_fallback ucd h ip = Inr (Some (v, p'))
              \<and> r' ''summary'' = summary_entry pd (h p')"
    if s: "identity_scan d (user_ns ip) = None"
      and r: "dataframe_intrinsic_repr ucd pd h (Some ip) d = Inr r'"
        "r' ''variable_name'' = Some v"
  proof (cases "head_fallback ucd h ip")
    case (Inl e)
    with s have "resolve_variable ucd h (Some ip) d = Inl e" by (simp add: resolve_fallback)
    with r(1) show ?thesis by (simp add: repr_raises)
  next
    case (Inr found)
    show ?thesis
    proof (cases found)
      case None
      with Inr s have "resolve_variable ucd h (Some ip) d
          = Inr ([''type'' \<mapsto> ascii ''dataframe''], d)"
        by (simp add: resolve_fallback)
      from repr_payload[OF this, where pd = pd] r show ?thesis by auto
    next
      case (Some vp)
      obtain v' p' where vp: "vp = (v', p')" by (cases vp)
      with Some Inr s have "resolve_variable ucd h (Some ip) d
          = Inr ([''type'' \<mapsto> ascii ''dataframe'', ''variable_name'' \<mapsto> v'], p')"
        by (simp add: resolve_fallback)
      from repr_payload[OF this, where pd = pd] r have "v' = v" "r' ''summary'' = summary_entry pd (h p')"
        by auto
      with Some Inr vp show ?thesis by simp
    qed
  qed
  from 1 3 head_fallback_some_iff[where ucd = ucd and h = h and ip = ip and v = v and p = p]
  show ?thesis by blast
qed

lemma summary_entry_full:
  "summary_entry stub_pandas (DataFrame full_frame)
     = Some (ascii '' name variance nunique dtype example_value'')"
  by (simp add: summary_entry_def summary_text_def stub_pandas_def full_frame_def
        MAX_DATAFRAME_ROWS_def MAX_DATAFRAME_COLS_def ascii_def)

lemma summary_entry_empty: "summary_entry stub_pandas (DataFrame empty_frame) = None"
  by (simp add: summary_entry_def summary_text_def stub_pandas_def empty_frame_def
        MAX_DATAFRAME_ROWS_def MAX_DATAFRAME_COLS_def)


theorem head_fallback_summarizes_namespace_object_witness:
  "identity_scan 6 (user_ns (notebook [(ascii ''In'', 3), (ascii ''df'', 1)])) = None
   \<and> map_of (user_ns (notebook [(ascii ''In'', 3), (ascii ''df'', 1)])) (ascii ''df'') = Some 1
   \<and> notebook_heap 1 = DataFrame full_frame
   \<and> notebook_heap 6 = DataFrame empty_frame
   \<and> summary_entry stub_pandas (DataFrame empty_frame) = None
   \<and> (\<exists>r. dataframe_intrinsic_repr latin1 stub_pandas notebook_heap
              (Some (notebook [(ascii ''In'', 3), (ascii ''df'', 1)])) 6 = Inr r
         \<and> r ''type'' = Some (ascii ''dataframe'')
         \<and> r ''variable_name'' = Some (ascii ''df'')
         \<and> r ''summary'' = Some (ascii '' name variance nunique dtype example_value''))
   \<and> isidentifier latin1 [100, 233]
   \<and> head_fallback latin1 notebook_heap (notebook [(ascii ''In'', 7), ([100, 233], 1)])
       = Inr (Some ([100, 233], 1))"
proof -
  let ?ip = "notebook [(ascii ''In'', 3), (ascii ''df'', 1)]"
  let ?jp = "notebook [(ascii ''In'', 7), ([100, 233], 1)]"
  have s: "identity_scan 6 (user_ns ?ip) = None" by (simp add: notebook_def)
  have a: "map_of (user_ns ?ip) (ascii ''df'') = Some 1" by (simp add: notebook_def ascii_def)
  have b: "map_of (user_ns ?ip) (ascii ''In'') = Some 3" by (simp add: notebook_def)
  have h1: "notebook_heap 1 = DataFrame full_frame" by (simp add: notebook_heap_def)
  have h6: "notebook_heap 6 = DataFrame empty_frame" by (simp add: notebook_heap_def)
  have h3: "notebook_heap 3 = List [Str [], Str (ascii ''df.head()'')]"
    by (simp add: notebook_heap_def)
  have l: "[Str [], Str (ascii ''df.head()'')] \<noteq> []
      \<and> last [Str [], Str (ascii ''df.head()'')] = Str (ascii ''df.head()'')"
    by simp
  from head_fallback_summarizes_namespace_object[where d = 6 and ip = ?ip and a = 1
      and h = notebook_heap and T = full_frame and b = 3
      and lines = "[Str [], Str (ascii ''df.head()'')]" and pd = stub_pandas and ucd = latin1]
    s a b h1 h3 l
  have 1: "\<exists>r. dataframe_intrinsic_repr latin1 stub_pandas notebook_heap (Some ?ip) 6 = Inr r
            \<and> r ''type'' = Some (ascii ''dataframe'')
            \<and> r ''variable_name'' = Some (ascii ''df'')
            \<and> r ''summary'' = summary_entry stub_pandas (DataFrame full_frame)"
    by blast
  have i: "isidentifier latin1 [100, 233]"
    by (simp add: isidentifier_def is_id_start_def is_id_continue_def ascii_letter_def latin1_def)
  have l7: "last_input_line notebook_heap ?jp = Inr (Str ([100, 233] @ 46 # ascii ''head()''))"
    by (simp add: last_input_line_def getitem_def notebook_def notebook_heap_def ascii_def)
  have m7: "map_of (user_ns ?jp) [100, 233] = Some 1" by (simp add: notebook_def ascii_def)
  from head_fallback_summarizes_namespace_object[where ip = ?jp and h = notebook_heap
      and ucd = latin1 and v = "[100, 233]" and p = 1] i l7 m7 h1 startswith_head
  have 2: "head_fallback latin1 notebook_heap ?jp = Inr (Some ([100, 233], 1))"
    by blast
  from 1 2 s a h1 h6 i summary_entry_empty summary_entry_full show ?thesis by simp
qed

text \<open>
  C8. The identity scan returns the name \<open>n\<close> exactly when the namespace is some entries
  without match, then \<open>n\<close> bound to the displayed object itself, \<open>n\<close> not starting with an
  underscore, then any entries: the first match in iteration order, by address and not by
  value. The renderer then sets "variable_name" to \<open>n\<close> and summarizes the displayed object.
  When the scan finds nothing and the fallback finds nothing, as for the last input line
  "print(df)", the payload has no "variable_name".
\<close>

theorem identity_scan_first_public_match:
  "(identity_scan d ns = Some n \<longleftrightarrow>
      (\<exists>pre post. ns = pre @ (n, d) # post \<and> \<not> startswith n (ascii ''_'')
         \<and> list_all (\<lambda>(m, v). v \<noteq> d \<or> startswith m (ascii ''_'')) pre))
   \<and> (identity_scan d (user_ns ip) = Some n \<longrightarrow>
        (\<exists>r. dataframe_intrinsic_repr ucd pd h (Some ip) d = Inr r
           \<and> r ''variable_name'' = Some n \<and> r ''summary'' = summary_entry pd (h d)))
   \<and> (identity_scan d (user_ns ip) = None \<and> head_fallback ucd h ip = Inr None \<longrightarrow>
        (\<exists>r. dataframe_intrinsic_repr ucd pd h (Some ip) d = Inr r
           \<and> r ''variable_name'' = None \<and> ''variable_name'' \<notin> dom r))
   \<and> (last_input_line h ip = Inr (Str (ascii ''print(df)'')) \<longrightarrow> head_fallback ucd h ip = Inr None)"
proof -
  have 1: "identity_scan d ns = Some n \<longleftrightarrow>
      (\<exists>pre post. ns = pre @ (n, d) # post \<and> \<not> startswith n (ascii ''_'')
         \<and> list_all (\<lambda>(m, v). v \<noteq> d \<or> startswith m (ascii ''_'')) pre)"
    using scan_some[of d ns n] scan_first[of d _ n] scan_none[of d] by metis
  have 2: "\<exists>r. dataframe_intrinsic_repr ucd pd h (Some ip) d = Inr r
           \<and> r ''variable_name'' = Some n \<and> r ''summary'' = summary_entry pd (h d)"
    if "identity_scan d (user_ns ip) = Some n"
    using repr_payload[OF resolve_scan[OF that, where ucd = ucd and h = h], where pd = pd] by auto
  have 3: "\<exists>r. dataframe_intrinsic_repr ucd pd h (Some ip) d = Inr r
           \<and> r ''variable_name'' = None \<and> ''variable_name'' \<notin> dom r"
    if "identity_scan d (user_ns ip) = None" "head_fallback ucd h ip = Inr None"
  proof -
    from that have "resolve_variable ucd h (Some ip) d
        = Inr ([''type'' \<mapsto> ascii ''dataframe''], d)"
      by (simp add: resolve_fallback)
    from repr_payload[OF this, where pd = pd] show ?thesis by auto
  qed
  have 4: "head_fallback ucd h ip = Inr None"
    if "last_input_line h ip = Inr (Str (ascii ''print(df)''))"
    using that by (simp add: head_fallback_of_line partition_print)
  from 1 2 3 4 show ?thesis by blast
qed

theorem identity_scan_first_public_match_witness:
  "notebook_heap 5 = notebook_heap 1
   \<and> identity_scan 1 [(ascii ''_'', 1), (ascii ''copy'', 5), (ascii ''df'', 1),
                       (ascii ''again'', 1), (ascii ''In'', 4)] = Some (ascii ''df'')
   \<and> (\<exists>r. dataframe_intrinsic_repr latin1 stub_pandas notebook_heap
              (Some (notebook [(ascii ''_'', 1), (ascii ''copy'', 5), (ascii ''df'', 1),
                               (ascii ''again'', 1), (ascii ''In'', 4)])) 1
            = Inr r
         \<and> r ''variable_name'' = Some (ascii ''df''))
   \<and> identity_scan 2 [(ascii ''In'', 4), (ascii ''df'', 1)] = None
   \<and> last_input_line notebook_heap (notebook [(ascii ''In'', 4), (ascii ''df'', 1)])
       = Inr (Str (ascii ''print(df)''))
   \<and> (\<exists>r. dataframe_intrinsic_repr latin1 stub_pandas notebook_heap
              (Some (notebook [(ascii ''In'', 4), (ascii ''df'', 1)])) 2 = Inr r
         \<and> r ''variable_name'' = None)"
proof -
  let ?ns = "[(ascii ''_'', 1), (ascii ''copy'', 5), (ascii ''df'', 1),
              (ascii ''again'', 1), (ascii ''In'', 4)] :: (pystr \<times> addr) list"
  let ?ms = "[(ascii ''In'', 4), (ascii ''df'', 1)] :: (pystr \<times> addr) list"
  have split: "?ns = [(ascii ''_'', 1), (ascii ''copy'', 5)] @ (ascii ''df'', 1)
                       # [(ascii ''again'', 1), (ascii ''In'', 4)]
      \<and> \<not> startswith (ascii ''df'') (ascii ''_'')
      \<and> list_all (\<lambda>(m, v). v \<noteq> (1::nat) \<or> startswith m (ascii ''_''))
           [(ascii ''_'', 1), (ascii ''copy'', 5)]"
    by (simp add: startswith_def ascii_def)
  have eq: "notebook_heap 5 = notebook_heap 1" by (simp add: notebook_heap_def)
  have l: "last_input_line notebook_heap (notebook ?ms) = Inr (Str (ascii ''print(df)''))"
    by (simp add: last_input_line_def getitem_def notebook_def notebook_heap_def)
  have n: "identity_scan 2 (user_ns (notebook ?ms)) = None" by (simp add: notebook_def)
  have 1: "identity_scan 1 ?ns = Some (ascii ''df'')"
    using identity_scan_first_public_match[where d = 1 and ns = ?ns and n = "ascii ''df''"] split
    by blast
  then have "identity_scan 1 (user_ns (notebook ?ns)) = Some (ascii ''df'')"
    by (simp add: notebook_def)
  with identity_scan_first_public_match[where d = 1 and ip = "notebook ?ns"
      and pd = stub_pandas and h = notebook_heap and ucd = latin1 and n = "ascii ''df''"]
  have 2: "\<exists>r. dataframe_intrinsic_repr latin1 stub_pandas notebook_heap (Some (notebook ?ns)) 1
             = Inr r
         \<and> r ''variable_name'' = Some (ascii ''df'')"
    by blast
  from identity_scan_first_public_match[where d = 2 and ip = "notebook ?ms"
      and pd = stub_pandas and h = notebook_heap and ucd = latin1] n l
  have 3: "\<exists>r. dataframe_intrinsic_repr latin1 stub_pandas notebook_heap (Some (notebook ?ms)) 2
             = Inr r
         \<and> r ''variable_name'' = None"
    by blast
  from eq 1 2 3 n l show ?thesis by (simp add: notebook_def)
qed

text \<open>
  C2, as stated, fails: with a shell whose namespace has no entry "In" and does not bind the
  displayed dataframe to a public name, \<^verbatim>\<open>ip.user_ns['In']\<close> raises \<^verbatim>\<open>KeyError\<close> and the renderer
  raises it too.
\<close>

theorem dataframe_repr_raises_without_input_history:
  "dataframe_intrinsic_repr latin1 stub_pandas notebook_heap
     (Some (notebook [(ascii ''df'', 1)])) 2 = Inl KeyError"
  by (simp add: dataframe_intrinsic_repr_def resolve_variable_def head_fallback_def
        last_input_line_def getitem_def notebook_def ascii_def)

lemma resolve_cases:
  "(\<exists>res d'. resolve_variable ucd h ipython d = Inr (res, d')
       \<and> res ''type'' = Some (ascii ''dataframe'') \<and> res ''summary'' = None
       \<and> dom res \<subseteq> {''type'', ''variable_name''})
   \<or> (\<exists>ip e. ipython = Some ip \<and> identity_scan d (user_ns ip) = None
         \<and> head_fallback ucd h ip = Inl e \<and> resolve_variable ucd h ipython d = Inl e)"
proof (cases ipython)
  case None
  then show ?thesis by (simp add: resolve_no_shell)
next
  case (Some ip)
  show ?thesis
  proof (cases "identity_scan d (user_ns ip)")
    case (Some n)
    with \<open>ipython = Some ip\<close> show ?thesis by (simp add: resolve_scan)
  next
    case None
    with \<open>ipython = Some ip\<close> show ?thesis
      by (auto simp: resolve_fallback split: sum.splits option.splits)
  qed
qed

lemma repr_exact:
  assumes "resolve_variable ucd h ipython d = Inr (res, d')"
  shows "dataframe_intrinsic_repr ucd pd h ipython d
           = Inr (case summary_entry pd (h d') of None \<Rightarrow> res | Some s \<Rightarrow> res(''summary'' \<mapsto> s))"
  by (simp add: repr_of_resolve[OF assms] summary_entry_def split: option.splits)

text \<open>
  C2, amended. Whenever no shell is active, or the identity scan finds a name, or
  \<^verbatim>\<open>ip.user_ns['In'][-1]\<close> is a string, name resolution returns a payload \<open>res\<close> with "type"
  mapped to "dataframe" and at most the key "variable_name" besides, and an object to
  summarize; the renderer then returns, for every behaviour of the tabular library. What it
  returns is \<open>res\<close> itself, without a "summary", when the summarizer returns \<^verbatim>\<open>None\<close>, in
  particular when a call into the library raises, and when the summary is the empty
  string; otherwise it is \<open>res\<close> with the summary under "summary". The renderer raises
  exactly when a shell is active, the scan finds nothing and the fallback raises, which it
  does exactly when reading \<^verbatim>\<open>ip.user_ns['In'][-1]\<close> raises or gives an object that is no
  string.
\<close>

theorem dataframe_repr_returns_when_history_readable:
  "((\<forall>ip. ipython = Some ip \<longrightarrow> identity_scan d (user_ns ip) = None \<longrightarrow>
        (\<exists>line. last_input_line h ip = Inr (Str line)))
      \<longrightarrow> (\<exists>res d'. resolve_variable ucd h ipython d = Inr (res, d')
             \<and> res ''type'' = Some (ascii ''dataframe'')
             \<and> dom res \<subseteq> {''type'', ''variable_name''}
             \<and> (\<exists>r. dataframe_intrinsic_repr ucd pd h ipython d = Inr r
                    \<and> r ''type'' = Some (ascii ''dataframe'')
                    \<and> dom r \<subseteq> {''type'', ''variable_name'', ''summary''})
             \<and> (summarize_dataframe pd (h d') = None \<longrightarrow>
                   dataframe_intrinsic_repr ucd pd h ipython d = Inr res)
             \<and> (\<forall>df e. h d' = DataFrame df \<longrightarrow> summary_text pd df = Inl e \<longrightarrow>
                   dataframe_intrinsic_repr ucd pd h ipython d = Inr res)
             \<and> (summarize_dataframe pd (h d') = Some [] \<longrightarrow>
                   dataframe_intrinsic_repr ucd pd h ipython d = Inr res)
             \<and> (\<forall>s. summarize_dataframe pd (h d') = Some s \<longrightarrow> s \<noteq> [] \<longrightarrow>
                   dataframe_intrinsic_repr ucd pd h ipython d = Inr (res(''summary'' \<mapsto> s)))))
   \<and> (dataframe_intrinsic_repr ucd pd h ipython d = Inl e \<longleftrightarrow>
        (\<exists>ip. ipython = Some ip \<and> identity_scan d (user_ns ip) = None
           \<and> head_fallback ucd h ip = Inl e))
   \<and> (head_fallback ucd h ip' = Inl e \<longleftrightarrow>
        (last_input_line h ip' = Inl e
         \<or> (\<exists>obj. last_input_line h ip' = Inr obj \<and> (\<forall>line. obj \<noteq> Str line)
               \<and> e = AttributeError)))"
proof (intro conjI impI)
  assume a: "\<forall>ip. ipython = Some ip \<longrightarrow> identity_scan d (user_ns ip) = None \<longrightarrow>
        (\<exists>line. last_input_line h ip = Inr (Str line))"
  have "\<exists>res d'. resolve_variable ucd h ipython d = Inr (res, d')
                  \<and> res ''type'' = Some (ascii ''dataframe'') \<and> res ''summary'' = None
                  \<and> dom res \<subseteq> {''type'', ''variable_name''}"
  proof -
    from resolve_cases[of ucd h ipython d] show ?thesis
    proof
      assume "\<exists>res d'. resolve_variable ucd h ipython d = Inr (res, d')
                  \<and> res ''type'' = Some (ascii ''dataframe'') \<and> res ''summary'' = None
                  \<and> dom res \<subseteq> {''type'', ''variable_name''}"
      then show ?thesis .
    next
      assume "\<exists>ip e. ipython = Some ip \<and> identity_scan d (user_ns ip) = None
                     \<and> head_fallback ucd h ip = Inl e \<and> resolve_variable ucd h ipython d = Inl e"
      then obtain ip e where *: "ipython = Some ip" "identity_scan d (user_ns ip) = None"
        "head_fallback ucd h ip = Inl e" by blast
      from a *(1,2) obtain line where "last_input_line h ip = Inr (Str line)" by blast
      from head_fallback_returns[OF this, of ucd] *(3) have False by simp
      then show ?thesis ..
    qed
  qed
  then obtain res d' where r: "resolve_variable ucd h ipython d = Inr (res, d')"
    "res ''type'' = Some (ascii ''dataframe'')" "res ''summary'' = None"
    "dom res \<subseteq> {''type'', ''variable_name''}"
    by blast
  have e: "dataframe_intrinsic_repr ucd pd h ipython d
      = Inr (case summary_entry pd (h d') of None \<Rightarrow> res | Some s \<Rightarrow> res(''summary'' \<mapsto> s))"
    using r(1) by (rule repr_exact)
  have p: "\<exists>r. dataframe_intrinsic_repr ucd pd h ipython d = Inr r
                    \<and> r ''type'' = Some (ascii ''dataframe'')
                    \<and> dom r \<subseteq> {''type'', ''variable_name'', ''summary''}"
  proof (cases "summary_entry pd (h d')")
    case None
    with e r(2,4) show ?thesis by auto
  next
    case (Some s)
    have "dom (res(''summary'' \<mapsto> s)) \<subseteq> {''type'', ''variable_name'', ''summary''}"
      using r(4) by auto
    with Some e r(2) show ?thesis by simp
  qed
  have n: "dataframe_intrinsic_repr ucd pd h ipython d = Inr res"
    if "summarize_dataframe pd (h d') = None"
    using that e by (simp add: summary_entry_def)
  have f: "\<forall>df e. h d' = DataFrame df \<longrightarrow> summary_text pd df = Inl e \<longrightarrow>
                   dataframe_intrinsic_repr ucd pd h ipython d = Inr res"
  proof (intro allI impI)
    fix df e
    assume "h d' = DataFrame df" "summary_text pd df = Inl e"
    then have "summarize_dataframe pd (h d') = None"
      using summarize_none_iff[of pd df] by auto
    then show "dataframe_intrinsic_repr ucd pd h ipython d = Inr res" by (rule n)
  qed
  have z: "dataframe_intrinsic_repr ucd pd h ipython d = Inr res"
    if "summarize_dataframe pd (h d') = Some []"
    using that e by (simp add: summary_entry_def)
  have s: "\<forall>s. summarize_dataframe pd (h d') = Some s \<longrightarrow> s \<noteq> [] \<longrightarrow>
                   dataframe_intrinsic_repr ucd pd h ipython d = Inr (res(''summary'' \<mapsto> s))"
    using e by (simp add: summary_entry_def)
  show "\<exists>res d'. resolve_variable ucd h ipython d = Inr (res, d')
             \<and> res ''type'' = Some (ascii ''dataframe'')
             \<and> dom res \<subseteq> {''type'', ''variable_name''}
             \<and> (\<exists>r. dataframe_intrinsic_repr ucd pd h ipython d = Inr r
                    \<and> r ''type'' = Some (ascii ''dataframe'')
                    \<and> dom r \<subseteq> {''type'', ''variable_name'', ''summary''})
             \<and> (summarize_dataframe pd (h d') = None \<longrightarrow>
                   dataframe_intrinsic_repr ucd pd h ipython d = Inr res)
             \<and> (\<forall>df e. h d' = DataFrame df \<longrightarrow> summary_text pd df = Inl e \<longrightarrow>
                   dataframe_intrinsic_repr ucd pd h ipython d = Inr res)
             \<and> (summarize_dataframe pd (h d') = Some [] \<longrightarrow>
                   dataframe_intrinsic_repr ucd pd h ipython d = Inr res)
             \<and> (\<forall>s. summarize_dataframe pd (h d') = Some s \<longrightarrow> s \<noteq> [] \<longrightarrow>
                   dataframe_intrinsic_repr ucd pd h ipython d = Inr (res(''summary'' \<mapsto> s)))"
    apply (rule exI[of _ res])
    apply (rule exI[of _ d'])
    using r(1,2,4) p n f z s
    apply (intro conjI impI)
           apply assumption+
    done
next
  show "dataframe_intrinsic_repr ucd pd h ipython d = Inl e \<longleftrightarrow>
        (\<exists>ip. ipython = Some ip \<and> identity_scan d (user_ns ip) = None
           \<and> head_fallback ucd h ip = Inl e)"
  proof
    assume L: "dataframe_intrinsic_repr ucd pd h ipython d = Inl e"
    from resolve_cases[of ucd h ipython d]
    show "\<exists>ip. ipython = Some ip \<and> identity_scan d (user_ns ip) = None
           \<and> head_fallback ucd h ip = Inl e"
    proof
      assume "\<exists>res d'. resolve_variable ucd h ipython d = Inr (res, d')
                  \<and> res ''type'' = Some (ascii ''dataframe'') \<and> res ''summary'' = None
                  \<and> dom res \<subseteq> {''type'', ''variable_name''}"
      then obtain res d' where "resolve_variable ucd h ipython d = Inr (res, d')" by blast
      from repr_exact[OF this, of pd] L show ?thesis by simp
    next
      assume "\<exists>ip e. ipython = Some ip \<and> identity_scan d (user_ns ip) = None
                     \<and> head_fallback ucd h ip = Inl e \<and> resolve_variable ucd h ipython d = Inl e"
      then obtain ip e' where *: "ipython = Some ip" "identity_scan d (user_ns ip) = None"
        "head_fallback ucd h ip = Inl e'" "resolve_variable ucd h ipython d = Inl e'" by blast
      from repr_raises[OF *(4), of pd] L have "e' = e" by simp
      with * show ?thesis by blast
    qed
  next
    assume "\<exists>ip. ipython = Some ip \<and> identity_scan d (user_ns ip) = None
           \<and> head_fallback ucd h ip = Inl e"
    then obtain ip where "ipython = Some ip" "identity_scan d (user_ns ip) = None"
      "head_fallback ucd h ip = Inl e" by blast
    then have "resolve_variable ucd h ipython d = Inl e" by (simp add: resolve_fallback)
    then show "dataframe_intrinsic_repr ucd pd h ipython d = Inl e" by (rule repr_raises)
  qed
next
  show "head_fallback ucd h ip' = Inl e \<longleftrightarrow>
        (last_input_line h ip' = Inl e
         \<or> (\<exists>obj. last_input_line h ip' = Inr obj \<and> (\<forall>line. obj \<noteq> Str line)
               \<and> e = AttributeError))"
  proof (cases "last_input_line h ip'")
    case (Inl e')
    then show ?thesis by (simp add: head_fallback_raises)
  next
    case (Inr obj)
    show ?thesis
    proof (cases "\<exists>line. obj = Str line")
      case True
      then obtain line where "obj = Str line" by blast
      with Inr head_fallback_returns[of h ip' line ucd] show ?thesis by auto
    next
      case False
      with Inr head_fallback_not_str[of h ip' obj ucd] show ?thesis by auto
    qed
  qed
qed


theorem dataframe_repr_returns_when_history_readable_witness:
  "last_input_line notebook_heap (notebook [(ascii ''In'', 4), (ascii ''df'', 1)])
     = Inr (Str (ascii ''print(df)''))
   \<and> identity_scan 6 (user_ns (notebook [(ascii ''In'', 4), (ascii ''df'', 1)])) = None
   \<and> notebook_heap 6 = DataFrame empty_frame
   \<and> summary_text stub_pandas empty_frame = Inl ValueError
   \<and> dataframe_intrinsic_repr latin1 stub_pandas notebook_heap
        (Some (notebook [(ascii ''In'', 4), (ascii ''df'', 1)])) 6
       = Inr [''type'' \<mapsto> ascii ''dataframe'']
   \<and> dataframe_intrinsic_repr latin1 stub_pandas notebook_heap
        (Some (notebook [(ascii ''In'', 4), (ascii ''df'', 1)])) 1
       = Inr [''type'' \<mapsto> ascii ''dataframe'', ''variable_name'' \<mapsto> ascii ''df'',
              ''summary'' \<mapsto> ascii '' name variance nunique dtype example_value'']"
proof -
  let ?ip = "notebook [(ascii ''In'', 4), (ascii ''df'', 1)]"
  have l: "last_input_line notebook_heap ?ip = Inr (Str (ascii ''print(df)''))"
    by (simp add: last_input_line_def getitem_def notebook_def notebook_heap_def)
  have n: "identity_scan 6 (user_ns ?ip) = None" by (simp add: notebook_def)
  have h6: "notebook_heap 6 = DataFrame empty_frame" by (simp add: notebook_heap_def)
  have h1: "notebook_heap 1 = DataFrame full_frame" by (simp add: notebook_heap_def)
  have st: "summary_text stub_pandas empty_frame = Inl ValueError"
    by (simp add: summary_text_def stub_pandas_def empty_frame_def)
  have a6: "\<forall>ip. Some ?ip = Some ip \<longrightarrow> identity_scan 6 (user_ns ip) = None \<longrightarrow>
        (\<exists>line. last_input_line notebook_heap ip = Inr (Str line))"
    using l by auto
  have a1: "\<forall>ip. Some ?ip = Some ip \<longrightarrow> identity_scan 1 (user_ns ip) = None \<longrightarrow>
        (\<exists>line. last_input_line notebook_heap ip = Inr (Str line))"
    using l by auto
  have r6: "resolve_variable latin1 notebook_heap (Some ?ip) 6
      = Inr ([''type'' \<mapsto> ascii ''dataframe''], 6)"
    using n l by (simp add: resolve_fallback head_fallback_of_line partition_print)
  have "identity_scan 1 (user_ns ?ip) = Some (ascii ''df'')"
    by (simp add: notebook_def startswith_def ascii_def)
  then have r1: "resolve_variable latin1 notebook_heap (Some ?ip) 1
      = Inr ([''type'' \<mapsto> ascii ''dataframe'', ''variable_name'' \<mapsto> ascii ''df''], 1)"
    by (rule resolve_scan)
  have s1: "summarize_dataframe stub_pandas (notebook_heap 1)
      = Some (ascii '' name variance nunique dtype example_value'')
      \<and> ascii '' name variance nunique dtype example_value'' \<noteq> []"
    unfolding h1
    by (simp add: summary_text_def stub_pandas_def full_frame_def
          MAX_DATAFRAME_ROWS_def MAX_DATAFRAME_COLS_def ascii_def)
  from dataframe_repr_returns_when_history_readable[where ipython = "Some ?ip" and d = 6
      and h = notebook_heap and pd = stub_pandas and ucd = latin1] a6 r6 h6 st
  have 1: "dataframe_intrinsic_repr latin1 stub_pandas notebook_heap (Some ?ip) 6
       = Inr [''type'' \<mapsto> ascii ''dataframe'']"
    by auto
  from dataframe_repr_returns_when_history_readable[where ipython = "Some ?ip" and d = 1
      and h = notebook_heap and pd = stub_pandas and ucd = latin1] a1 r1 s1
  have 2: "dataframe_intrinsic_repr latin1 stub_pandas notebook_heap (Some ?ip) 1
       = Inr [''type'' \<mapsto> ascii ''dataframe'', ''variable_name'' \<mapsto> ascii ''df'',
              ''summary'' \<mapsto> ascii '' name variance nunique dtype example_value'']"
    by auto
  from l n h6 st 1 2 show ?thesis by simp
qed

end
